theory Spec2Isabelle
  imports Main "HOL-Library.Word"
begin

section \<open>The live streaming session client\<close>

text \<open>
  A shallow embedding of the class \<open>GenAILiveClient\<close>: its connection state (the status
  field and the session handle), the three outbound operations, and the four
  transport callbacks. Every operation returns the list of its observable effects in
  the order the code performs them: an \<open>emitter.emit\<close> call, a call on the session
  handle, the call that opens the transport, a write to the console. What the
  subscribers of an event do when it is published is outside the model.

  A JavaScript string is a HOL \<open>string\<close>, one \<open>char\<close> per code unit. An optional
  field of a TypeScript object is an \<open>option\<close>; a test for truthiness of such a field
  is a test for \<open>Some\<close> of a value that is not empty or false. Line numbers are those of
  the client's source file.
\<close>

subsection \<open>String operations the client uses\<close>

definition startsWith :: "string \<Rightarrow> string \<Rightarrow> bool" where
  "startsWith s p = (take (length p) s = p)"

fun includesStr :: "string \<Rightarrow> string \<Rightarrow> bool" where
  "includesStr [] sub = (sub = [])"
| "includesStr (c # cs) sub = (if startsWith (c # cs) sub then True else includesStr cs sub)"

text \<open>\<open>indexOf\<close> is the index of the first occurrence, and \<open>-1\<close> when there is none.\<close>

fun indexOf :: "string \<Rightarrow> string \<Rightarrow> int" where
  "indexOf [] sub = (if sub = [] then 0 else - 1)"
| "indexOf (c # cs) sub =
     (if startsWith (c # cs) sub then 0
      else (let r = indexOf cs sub in if r < 0 then - 1 else r + 1))"

text \<open>Lower case for the letters \<open>A\<close> to \<open>Z\<close>, which is all a search for \<open>error\<close> can see.\<close>

definition lowerChar :: "char \<Rightarrow> char" where
  "lowerChar c =
     (let n = (of_char c :: nat) in if 65 \<le> n \<and> n \<le> 90 then char_of (n + 32) else c)"

definition toLowerCase :: "string \<Rightarrow> string" where
  "toLowerCase s = map lowerChar s"

text \<open>\<open>s.slice(start, Infinity)\<close> for a start that is not negative.\<close>

definition slice :: "string \<Rightarrow> int \<Rightarrow> string" where
  "slice s start = drop (nat start) s"

text \<open>The decimal numeral a template literal prints for a length.\<close>

function decimal :: "nat \<Rightarrow> string" where
  "decimal n =
     (if n < 10 then [''0123456789'' ! n]
      else decimal (n div 10) @ [''0123456789'' ! (n mod 10)])"
  by pat_completeness auto
termination
  by (relation "measure id") auto

declare decimal.simps [simp del]

subsection \<open>Messages, parts and events\<close>

type_synonym byte = "8 word"
type_synonym ArrayBuffer = "byte list"

definition byteLength :: "ArrayBuffer \<Rightarrow> nat" where
  "byteLength b = length b"

record Blob =
  mimeType :: "string option"
  data :: "string option"

text \<open>
  A part is an object: \<open>objectId\<close> is its identity, so that equality of two parts is
  the equality of references that \<open>difference\<close> compares with.
\<close>

record Part =
  objectId :: nat
  inlineData :: "Blob option"
  partText :: "string option"

record ModelTurn =
  parts :: "Part list option"

text \<open>A transcription; \<open>isFinal\<close> is the field the dispatcher reads through \<open>any\<close>.\<close>

record Transcription =
  transcriptionText :: string
  isFinal :: "bool option"

record LiveServerContent =
  interrupted :: "bool option"
  inputTranscription :: "Transcription option"
  outputTranscription :: "Transcription option"
  modelTurn :: "ModelTurn option"
  turnComplete :: "bool option"

type_synonym FunctionCall = string
type_synonym FunctionResponse = string

record LiveServerToolCall =
  functionCalls :: "FunctionCall list option"

record LiveServerToolCallCancellation =
  ids :: "string list option"

record LiveClientToolResponse =
  functionResponses :: "FunctionResponse list option"

text \<open>
  The inbound message as the dispatcher probes it: four optional fields, tested one
  after the other. The type is declared by the transport library, not by the client.
\<close>

record LiveServerMessage =
  setupComplete :: "unit option"
  toolCall :: "LiveServerToolCall option"
  toolCallCancellation :: "LiveServerToolCallCancellation option"
  serverContent :: "LiveServerContent option"

text \<open>
  The argument of \<open>send\<close> (\<open>Part | Part[]\<close>), a realtime chunk, and the message of a log
  entry (\<open>string | object\<close>). A log entry's \<open>date\<close> field, the wall clock, is left out.
\<close>

datatype Turns = OnePart Part | ManyParts "Part list"

record RealtimeChunk =
  chunkMimeType :: string
  chunkData :: string

datatype LogMessage =
    Str string
  | MessageObject LiveServerMessage
  | TurnsObject Turns
  | ToolResponseObject LiveClientToolResponse

record StreamingLog =
  logType :: string
  message :: LogMessage

record ErrorEvent =
  errorType :: string
  errorMessage :: string

record CloseEvent =
  closeType :: string
  reason :: "string option"

text \<open>The events of \<open>LiveClientEventTypes\<close> (lines 43-70), each with its arguments.\<close>

datatype Event =
    Audio ArrayBuffer
  | Close CloseEvent
  | Content LiveServerContent
  | Error ErrorEvent
  | Interrupted
  | Log StreamingLog
  | Open
  | Setupcomplete
  | Toolcall LiveServerToolCall
  | Toolcallcancellation LiveServerToolCallCancellation
  | Turncomplete
  | InputTranscription string bool
  | OutputTranscription string bool

text \<open>
  A session handle and a connect configuration are opaque. An effect is a published
  event, a call on the transport, or a \<open>console.error\<close>.
\<close>

type_synonym Session = nat
type_synonym LiveConnectConfig = string

datatype Effect =
    Emit Event
  | Live_connect string LiveConnectConfig
  | Session_close Session
  | Session_sendClientContent Session Turns bool
  | Session_sendRealtimeInput Session RealtimeChunk
  | Session_sendToolResponse Session "FunctionResponse list"
  | Console_error

text \<open>\<open>log\<close> (lines 334-341) publishes a log entry.\<close>

definition log :: "string \<Rightarrow> LogMessage \<Rightarrow> Effect" where
  "log t m = Emit (Log \<lparr>logType = t, message = m\<rparr>)"

subsection \<open>The message dispatcher\<close>

text \<open>
  \<open>onMessage\<close> (lines 204-292) changes no state. It is written in three layers: the
  model-turn block (lines 260-284), the \<open>serverContent\<close> block (lines 223-291), and the
  whole method. \<open>isAudioPart\<close> is the filter predicate of line 264 and \<open>base64Of\<close> the map
  of line 266.
\<close>

definition isAudioPart :: "Part \<Rightarrow> bool" where
  "isAudioPart p =
     (case inlineData p of
        None \<Rightarrow> False
      | Some b \<Rightarrow> (case mimeType b of None \<Rightarrow> False | Some mt \<Rightarrow> startsWith mt ''audio/pcm''))"

definition base64Of :: "Part \<Rightarrow> string option" where
  "base64Of p = (case inlineData p of None \<Rightarrow> None | Some b \<Rightarrow> data b)"

text \<open>lodash's \<open>difference\<close>: the values of the first array that the second does not hold.\<close>

definition difference :: "'a list \<Rightarrow> 'a list \<Rightarrow> 'a list" where
  "difference xs ys = filter (\<lambda>x. x \<notin> set ys) xs"

definition nullish :: "'a option \<Rightarrow> 'a \<Rightarrow> 'a" where
  "nullish v d = (case v of None \<Rightarrow> d | Some x \<Rightarrow> x)"

text \<open>
  The body of \<open>base64s.forEach\<close>: a payload that is absent or empty is skipped. The
  decoder \<open>base64ToArrayBuffer\<close> is imported from a module that is not among the sources,
  so it is a parameter.
\<close>

definition emitAudio :: "(string \<Rightarrow> ArrayBuffer) \<Rightarrow> string option \<Rightarrow> Effect list" where
  "emitAudio base64ToArrayBuffer b64 =
     (case b64 of
        None \<Rightarrow> []
      | Some s \<Rightarrow>
          if s = [] then []
          else (let d = base64ToArrayBuffer s
                in [Emit (Audio d),
                    log ''server.audio'' (Str (''buffer ('' @ decimal (byteLength d) @ '')''))]))"

text \<open>The content record the dispatcher builds: \<open>{ modelTurn: { parts: otherParts } }\<close>.\<close>

definition contentOf :: "Part list \<Rightarrow> LiveServerContent" where
  "contentOf ps =
     \<lparr>interrupted = None, inputTranscription = None, outputTranscription = None,
      modelTurn = Some \<lparr>parts = Some ps\<rparr>, turnComplete = None\<rparr>"

definition onModelTurn ::
  "(string \<Rightarrow> ArrayBuffer) \<Rightarrow> LiveServerMessage \<Rightarrow> ModelTurn \<Rightarrow> Effect list" where
  "onModelTurn base64ToArrayBuffer msg mt =
     (let ps = nullish (parts mt) [];
          audioParts = filter isAudioPart ps;
          base64s = map base64Of audioParts;
          otherParts = difference ps audioParts
      in concat (map (emitAudio base64ToArrayBuffer) base64s) @
         (if length otherParts > 0
          then [Emit (Content (contentOf otherParts)),
                log ''server.content'' (MessageObject msg)]
          else []))"

definition onServerContent ::
  "(string \<Rightarrow> ArrayBuffer) \<Rightarrow> LiveServerMessage \<Rightarrow> LiveServerContent \<Rightarrow> Effect list" where
  "onServerContent base64ToArrayBuffer msg sc =
     (if interrupted sc = Some True
      then [log ''receive.serverContent'' (Str ''interrupted''), Emit Interrupted]
      else
        (case inputTranscription sc of
           None \<Rightarrow> []
         | Some t \<Rightarrow>
             [Emit (InputTranscription (transcriptionText t) (nullish (isFinal t) False)),
              log ''server.inputTranscription'' (Str (transcriptionText t))]) @
        (case outputTranscription sc of
           None \<Rightarrow> []
         | Some t \<Rightarrow>
             [Emit (OutputTranscription (transcriptionText t) (nullish (isFinal t) False)),
              log ''server.outputTranscription'' (Str (transcriptionText t))]) @
        (case modelTurn sc of
           None \<Rightarrow> []
         | Some mt \<Rightarrow> onModelTurn base64ToArrayBuffer msg mt) @
        (if turnComplete sc = Some True
         then [log ''server.send'' (Str ''turnComplete''), Emit Turncomplete]
         else []))"

definition onMessage :: "(string \<Rightarrow> ArrayBuffer) \<Rightarrow> LiveServerMessage \<Rightarrow> Effect list" where
  "onMessage base64ToArrayBuffer msg =
     (if setupComplete msg \<noteq> None then [Emit Setupcomplete]
      else
        (case toolCall msg of
           Some tc \<Rightarrow> [log ''server.toolCall'' (MessageObject msg), Emit (Toolcall tc)]
         | None \<Rightarrow>
             (case toolCallCancellation msg of
                Some c \<Rightarrow>
                  [log ''receive.toolCallCancellation'' (MessageObject msg),
                   Emit (Toolcallcancellation c)]
              | None \<Rightarrow>
                  (case serverContent msg of
                     Some sc \<Rightarrow> onServerContent base64ToArrayBuffer msg sc
                   | None \<Rightarrow> []))))"

subsection \<open>The connection state\<close>

datatype ConnectionStatus = Connected | Disconnected | Connecting

record GenAILiveClient =
  model :: string
  session :: "Session option"
  status :: ConnectionStatus

definition DEFAULT_LIVE_API_MODEL :: string where
  "DEFAULT_LIVE_API_MODEL = ''gemini-2.5-flash-native-audio-preview-09-2025''"

text \<open>The constructor (lines 96-102): an empty model name leaves the default in place.\<close>

definition newClient :: "string option \<Rightarrow> GenAILiveClient" where
  "newClient m =
     \<lparr>model = (case m of None \<Rightarrow> DEFAULT_LIVE_API_MODEL
                | Some n \<Rightarrow> if n = [] then DEFAULT_LIVE_API_MODEL else n),
      session = None,
      status = Disconnected\<rparr>"

subsection \<open>The transport callbacks\<close>

text \<open>\<open>onError\<close> (lines 294-302), \<open>onOpen\<close> (lines 304-308) and \<open>onClose\<close> (lines 310-327).\<close>

definition onError :: "GenAILiveClient \<Rightarrow> ErrorEvent \<Rightarrow> GenAILiveClient \<times> Effect list" where
  "onError c e =
     (c\<lparr>status := Disconnected\<rparr>,
      [Console_error,
       log (''server.'' @ errorType e) (Str (''Could not connect to GenAI Live: '' @ errorMessage e)),
       Emit (Error e)])"

definition onOpen :: "GenAILiveClient \<Rightarrow> GenAILiveClient \<times> Effect list" where
  "onOpen c = (c\<lparr>status := Connected\<rparr>, [Emit Open])"

text \<open>The reason \<open>onClose\<close> logs: lines 312-319.\<close>

definition closeReason :: "CloseEvent \<Rightarrow> string" where
  "closeReason e =
     (let reason0 = (case reason e of None \<Rightarrow> [] | Some r \<Rightarrow> r)
      in if includesStr (toLowerCase reason0) ''error''
         then (let prelude = ''ERROR]'';
                   preludeIndex = indexOf reason0 prelude
               in if preludeIndex > 0
                  then slice reason0 (preludeIndex + int (length prelude) + 1)
                  else reason0)
         else reason0)"

definition onClose :: "GenAILiveClient \<Rightarrow> CloseEvent \<Rightarrow> GenAILiveClient \<times> Effect list" where
  "onClose c e =
     (let r = closeReason e
      in (c\<lparr>status := Disconnected\<rparr>,
          [log (''server.'' @ closeType e)
             (Str (''disconnected '' @ (if r = [] then [] else ''with reason: '' @ r))),
           Emit (Close e)]))"

subsection \<open>Connecting and disconnecting\<close>

text \<open>
  \<open>connect\<close> (lines 104-139) is asynchronous. Its synchronous part runs up to the \<open>await\<close>: the third
  component is the value it returns when it returns at once, and \<open>None\<close> when it is
  suspended on the transport. \<open>connectResolved\<close> and \<open>connectRejected\<close> are its two
  continuations: the transport hands over a session, or the call throws, with the
  message of what it threw when there is one. \<open>disconnect\<close> is lines 141-148.
\<close>

definition connect ::
  "GenAILiveClient \<Rightarrow> LiveConnectConfig \<Rightarrow> GenAILiveClient \<times> Effect list \<times> bool option" where
  "connect c config =
     (if status c = Connected \<or> status c = Connecting then (c, [], Some False)
      else (c\<lparr>status := Connecting\<rparr>, [Live_connect (model c) config], None))"

definition connectResolved ::
  "GenAILiveClient \<Rightarrow> Session \<Rightarrow> GenAILiveClient \<times> Effect list \<times> bool" where
  "connectResolved c h = (c\<lparr>session := Some h, status := Connected\<rparr>, [], True)"

definition connectRejected ::
  "GenAILiveClient \<Rightarrow> string option \<Rightarrow> GenAILiveClient \<times> Effect list \<times> bool" where
  "connectRejected c e =
     (let c1 = c\<lparr>status := Disconnected, session := None\<rparr>;
          errorEvent =
            \<lparr>errorType = ''error'',
             errorMessage = (case e of None \<Rightarrow> ''Failed to connect.''
                             | Some m \<Rightarrow> if m = [] then ''Failed to connect.'' else m)\<rparr>;
          (c2, effs) = onError c1 errorEvent
      in (c2, Console_error # effs, False))"

definition disconnect :: "GenAILiveClient \<Rightarrow> GenAILiveClient \<times> Effect list \<times> bool" where
  "disconnect c =
     (c\<lparr>session := None, status := Disconnected\<rparr>,
      (case session c of None \<Rightarrow> [] | Some h \<Rightarrow> [Session_close h]) @
      [log ''client.close'' (Str ''Disconnected'')],
      True)"

subsection \<open>The outbound operations\<close>

definition notConnected :: Effect where
  "notConnected = Emit (Error \<lparr>errorType = ''Client is not connected'', errorMessage = []\<rparr>)"

text \<open>
  \<open>send\<close> (lines 150-158), \<open>sendRealtimeInput\<close> (lines 160-184) and \<open>sendToolResponse\<close>
  (lines 186-202). The event of the guard is \<open>new ErrorEvent('Client is not connected')\<close>:
  the string is the type of the event. In the branch past the guard the session is
  present: \<open>the\<close> reads it there only.
\<close>

definition send :: "GenAILiveClient \<Rightarrow> Turns \<Rightarrow> bool \<Rightarrow> GenAILiveClient \<times> Effect list" where
  "send c ps turnComplete' =
     (if status c \<noteq> Connected \<or> session c = None then (c, [notConnected])
      else (c, [Session_sendClientContent (the (session c)) ps turnComplete',
                log ''client.send'' (TurnsObject ps)]))"

text \<open>The classification loop (lines 170-177), with its \<open>break\<close> once both flags are set.\<close>

fun scanChunks :: "RealtimeChunk list \<Rightarrow> bool \<Rightarrow> bool \<Rightarrow> bool \<times> bool" where
  "scanChunks [] hasAudio hasVideo = (hasAudio, hasVideo)"
| "scanChunks (ch # rest) hasAudio hasVideo =
     (let hasAudio' = (if includesStr (chunkMimeType ch) ''audio'' then True else hasAudio);
          hasVideo' = (if includesStr (chunkMimeType ch) ''image'' then True else hasVideo)
      in if hasAudio' \<and> hasVideo' then (hasAudio', hasVideo')
         else scanChunks rest hasAudio' hasVideo')"

definition classification :: "RealtimeChunk list \<Rightarrow> string" where
  "classification chunks =
     (let (hasAudio, hasVideo) = scanChunks chunks False False
      in if hasAudio \<and> hasVideo then ''audio + video''
         else if hasAudio then ''audio''
         else if hasVideo then ''video''
         else ''unknown'')"

definition sendRealtimeInput ::
  "GenAILiveClient \<Rightarrow> RealtimeChunk list \<Rightarrow> GenAILiveClient \<times> Effect list" where
  "sendRealtimeInput c chunks =
     (if status c \<noteq> Connected \<or> session c = None then (c, [notConnected])
      else (c, map (Session_sendRealtimeInput (the (session c))) chunks @
               [log ''client.realtimeInput'' (Str (classification chunks))]))"

definition sendToolResponse ::
  "GenAILiveClient \<Rightarrow> LiveClientToolResponse \<Rightarrow> GenAILiveClient \<times> Effect list" where
  "sendToolResponse c toolResponse =
     (if status c \<noteq> Connected \<or> session c = None then (c, [notConnected])
      else (c, (case functionResponses toolResponse of
                  None \<Rightarrow> []
                | Some frs \<Rightarrow>
                    if frs = [] then [] else [Session_sendToolResponse (the (session c)) frs]) @
               [log ''client.toolResponse'' (ToolResponseObject toolResponse)]))"

subsection \<open>Runs of the client\<close>

text \<open>
  What can happen to a client: a call of one of its public operations, the completion
  of a suspended \<open>connect\<close>, or one of the four transport callbacks. \<open>pending\<close> counts the
  \<open>connect\<close> calls suspended on the transport; a completion with none pending does not
  happen.
\<close>

datatype Action =
    Call_connect LiveConnectConfig
  | Connect_resolves Session
  | Connect_rejects "string option"
  | Call_disconnect
  | Call_send Turns bool
  | Call_sendRealtimeInput "RealtimeChunk list"
  | Call_sendToolResponse LiveClientToolResponse
  | Transport_open
  | Transport_message LiveServerMessage
  | Transport_error ErrorEvent
  | Transport_close CloseEvent

record World =
  client :: GenAILiveClient
  pending :: nat

definition initial :: World where
  "initial = \<lparr>client = newClient None, pending = 0\<rparr>"

fun step :: "(string \<Rightarrow> ArrayBuffer) \<Rightarrow> World \<Rightarrow> Action \<Rightarrow> World \<times> Effect list" where
  "step dec w (Call_connect config) =
     (case connect (client w) config of
        (c, effs, r) \<Rightarrow>
          (\<lparr>client = c, pending = (if r = None then Suc (pending w) else pending w)\<rparr>, effs))"
| "step dec w (Connect_resolves h) =
     (if pending w = 0 then (w, [])
      else (case connectResolved (client w) h of
              (c, effs, r) \<Rightarrow> (\<lparr>client = c, pending = pending w - 1\<rparr>, effs)))"
| "step dec w (Connect_rejects e) =
     (if pending w = 0 then (w, [])
      else (case connectRejected (client w) e of
              (c, effs, r) \<Rightarrow> (\<lparr>client = c, pending = pending w - 1\<rparr>, effs)))"
| "step dec w Call_disconnect =
     (case disconnect (client w) of (c, effs, r) \<Rightarrow> (w\<lparr>client := c\<rparr>, effs))"
| "step dec w (Call_send ps tc) =
     (case send (client w) ps tc of (c, effs) \<Rightarrow> (w\<lparr>client := c\<rparr>, effs))"
| "step dec w (Call_sendRealtimeInput chunks) =
     (case sendRealtimeInput (client w) chunks of (c, effs) \<Rightarrow> (w\<lparr>client := c\<rparr>, effs))"
| "step dec w (Call_sendToolResponse tr) =
     (case sendToolResponse (client w) tr of (c, effs) \<Rightarrow> (w\<lparr>client := c\<rparr>, effs))"
| "step dec w Transport_open =
     (case onOpen (client w) of (c, effs) \<Rightarrow> (w\<lparr>client := c\<rparr>, effs))"
| "step dec w (Transport_message msg) = (w, onMessage dec msg)"
| "step dec w (Transport_error e) =
     (case onError (client w) e of (c, effs) \<Rightarrow> (w\<lparr>client := c\<rparr>, effs))"
| "step dec w (Transport_close e) =
     (case onClose (client w) e of (c, effs) \<Rightarrow> (w\<lparr>client := c\<rparr>, effs))"

fun run :: "(string \<Rightarrow> ArrayBuffer) \<Rightarrow> World \<Rightarrow> Action list \<Rightarrow> World" where
  "run dec w [] = w"
| "run dec w (a # as) = run dec (fst (step dec w a)) as"

subsection \<open>Reading a list of effects\<close>

fun isLog :: "Effect \<Rightarrow> bool" where
  "isLog (Emit (Log l)) = True"
| "isLog e = False"

fun isTransportCall :: "Effect \<Rightarrow> bool" where
  "isTransportCall (Emit ev) = False"
| "isTransportCall Console_error = False"
| "isTransportCall e = True"

text \<open>The events published on the bus other than log entries, in order.\<close>

fun eventsOf :: "Effect list \<Rightarrow> Event list" where
  "eventsOf [] = []"
| "eventsOf (Emit (Log l) # es) = eventsOf es"
| "eventsOf (Emit ev # es) = ev # eventsOf es"
| "eventsOf (e # es) = eventsOf es"

fun audioBuffers :: "Effect list \<Rightarrow> ArrayBuffer list" where
  "audioBuffers [] = []"
| "audioBuffers (Emit (Audio b) # es) = b # audioBuffers es"
| "audioBuffers (e # es) = audioBuffers es"

text \<open>The type tags of the log entries, in order.\<close>

fun logTypes :: "Effect list \<Rightarrow> string list" where
  "logTypes [] = []"
| "logTypes (Emit (Log l) # es) = logType l # logTypes es"
| "logTypes (e # es) = logTypes es"

subsection \<open>Predicates on events and effects\<close>

text \<open>
  The predicates below only read what the operations produce; the statements about the
  client are written with them.
\<close>

fun isContentSignal :: "Event \<Rightarrow> bool" where
  "isContentSignal (InputTranscription t f) = True"
| "isContentSignal (OutputTranscription t f) = True"
| "isContentSignal (Audio b) = True"
| "isContentSignal (Content c) = True"
| "isContentSignal Turncomplete = True"
| "isContentSignal e = False"

fun isDemuxEvent :: "Event \<Rightarrow> bool" where
  "isDemuxEvent (InputTranscription t f) = True"
| "isDemuxEvent (Audio b) = True"
| "isDemuxEvent (Content c) = True"
| "isDemuxEvent e = False"

fun isContent :: "Event \<Rightarrow> bool" where
  "isContent (Content c) = True"
| "isContent e = False"

text \<open>A part whose inline data carries a payload that is present and not empty.\<close>

definition hasPayload :: "Part \<Rightarrow> bool" where
  "hasPayload p = (case base64Of p of None \<Rightarrow> False | Some s \<Rightarrow> s \<noteq> [])"



fun isInputTranscription :: "Event \<Rightarrow> bool" where
  "isInputTranscription (InputTranscription t f) = True"
| "isInputTranscription e = False"

fun isOutputTranscription :: "Event \<Rightarrow> bool" where
  "isOutputTranscription (OutputTranscription t f) = True"
| "isOutputTranscription e = False"

subsection \<open>Sample inputs\<close>

text \<open>The shapes of the concrete parts and messages the closed instances are stated on.\<close>

abbreviation (input) audioPart :: "nat \<Rightarrow> string option \<Rightarrow> Part" where
  "audioPart i d \<equiv>
     \<lparr>objectId = i, inlineData = Some \<lparr>mimeType = Some ''audio/pcm;rate=24000'', data = d\<rparr>,
      partText = None\<rparr>"

abbreviation (input) textPart :: "nat \<Rightarrow> string \<Rightarrow> Part" where
  "textPart i t \<equiv> \<lparr>objectId = i, inlineData = None, partText = Some t\<rparr>"

abbreviation (input) contentMessage :: "LiveServerContent \<Rightarrow> LiveServerMessage" where
  "contentMessage sc \<equiv>
     \<lparr>setupComplete = None, toolCall = None, toolCallCancellation = None,
      serverContent = Some sc\<rparr>"

text \<open>The two transport callbacks that report the end of a session.\<close>

fun isCloseOrError :: "Action \<Rightarrow> bool" where
  "isCloseOrError (Transport_error e) = True"
| "isCloseOrError (Transport_close e) = True"
| "isCloseOrError a = False"

section \<open>Auxiliary facts\<close>

subsection \<open>Effect lists\<close>

lemma difference_filter: "difference xs (filter P xs) = filter (\<lambda>x. \<not> P x) xs"
  unfolding difference_def by (rule filter_cong) auto

lemma eventsOf_append: "eventsOf (xs @ ys) = eventsOf xs @ eventsOf ys"
  by (induction xs rule: eventsOf.induct) auto

lemma audioBuffers_append: "audioBuffers (xs @ ys) = audioBuffers xs @ audioBuffers ys"
  by (induction xs rule: audioBuffers.induct) auto



lemma eventsOf_log: "eventsOf (log t m # es) = eventsOf es"
  by (simp add: log_def)

lemma audioBuffers_log: "audioBuffers (log t m # es) = audioBuffers es"
  by (simp add: log_def)






lemma audioBuffers_emitAudio:
  "audioBuffers (concat (map (emitAudio dec \<circ> base64Of) ps)) =
   map (\<lambda>p. dec (nullish (base64Of p) [])) (filter hasPayload ps)"
  by (induction ps)
     (auto simp: emitAudio_def hasPayload_def audioBuffers_append audioBuffers_log Let_def
           nullish_def split: option.splits)

lemma eventsOf_emitAudio:
  "eventsOf (concat (map (emitAudio dec \<circ> base64Of) ps)) =
   map (\<lambda>p. Audio (dec (nullish (base64Of p) []))) (filter hasPayload ps)"
  by (induction ps)
     (auto simp: emitAudio_def hasPayload_def eventsOf_append eventsOf_log Let_def
           nullish_def split: option.splits)

lemma eventsOf_onModelTurn:
  "eventsOf (onModelTurn dec msg mt) =
   map (\<lambda>p. Audio (dec (nullish (base64Of p) [])))
     (filter (\<lambda>p. isAudioPart p \<and> hasPayload p) (nullish (parts mt) [])) @
   (if filter (\<lambda>p. \<not> isAudioPart p) (nullish (parts mt) []) = [] then []
    else [Content (contentOf (filter (\<lambda>p. \<not> isAudioPart p) (nullish (parts mt) [])))])"
  by (simp add: onModelTurn_def Let_def difference_filter eventsOf_append eventsOf_emitAudio
      eventsOf_log)

lemma audioBuffers_onModelTurn:
  "audioBuffers (onModelTurn dec msg mt) =
   map (\<lambda>p. dec (nullish (base64Of p) []))
     (filter (\<lambda>p. isAudioPart p \<and> hasPayload p) (nullish (parts mt) []))"
  by (simp add: onModelTurn_def Let_def audioBuffers_append audioBuffers_emitAudio
      audioBuffers_log)

lemma emitAudio_cong:
  "(\<And>s. s \<noteq> [] \<Longrightarrow> dec s = dec' s) \<Longrightarrow> emitAudio dec b = emitAudio dec' b"
  by (simp add: emitAudio_def split: option.splits)

lemma onModelTurn_cong:
  assumes "\<And>s. s \<noteq> [] \<Longrightarrow> dec s = dec' s"
  shows "onModelTurn dec msg mt = onModelTurn dec' msg mt"
proof -
  have "emitAudio dec = emitAudio dec'"
    using assms by (intro ext emitAudio_cong)
  then show ?thesis by (simp add: onModelTurn_def)
qed

lemma eventsOf_onServerContent:
  "eventsOf (onServerContent dec msg sc) =
     (if interrupted sc = Some True then [Interrupted]
      else (case inputTranscription sc of None \<Rightarrow> []
            | Some t \<Rightarrow> [InputTranscription (transcriptionText t) (nullish (isFinal t) False)]) @
           (case outputTranscription sc of None \<Rightarrow> []
            | Some t \<Rightarrow> [OutputTranscription (transcriptionText t) (nullish (isFinal t) False)]) @
           (case modelTurn sc of None \<Rightarrow> [] | Some mt \<Rightarrow> eventsOf (onModelTurn dec msg mt)) @
           (if turnComplete sc = Some True then [Turncomplete] else []))"
  by (simp add: onServerContent_def eventsOf_append eventsOf_log split: option.splits)

lemma onMessage_serverContent:
  "setupComplete msg = None \<Longrightarrow> toolCall msg = None \<Longrightarrow> toolCallCancellation msg = None \<Longrightarrow>
   serverContent msg = Some sc \<Longrightarrow> onMessage dec msg = onServerContent dec msg sc"
  by (simp add: onMessage_def)




lemma length_logTypes: "length (logTypes es) = length (filter isLog es)"
  by (induction es rule: logTypes.induct) auto




subsection \<open>The classification of a chunk batch\<close>

text \<open>The \<open>break\<close> of the scan does not change the flags it returns.\<close>

lemma scanChunks_eq:
  "scanChunks chunks a v =
     (a \<or> list_ex (\<lambda>ch. includesStr (chunkMimeType ch) ''audio'') chunks,
      v \<or> list_ex (\<lambda>ch. includesStr (chunkMimeType ch) ''image'') chunks)"
  by (induction chunks arbitrary: a v) (auto simp: Let_def)

lemma classification_eq:
  "classification chunks =
     (if list_ex (\<lambda>ch. includesStr (chunkMimeType ch) ''audio'') chunks
      then (if list_ex (\<lambda>ch. includesStr (chunkMimeType ch) ''image'') chunks
            then ''audio + video'' else ''audio'')
      else (if list_ex (\<lambda>ch. includesStr (chunkMimeType ch) ''image'') chunks
            then ''video'' else ''unknown''))"
  by (simp add: classification_def scanChunks_eq)

lemma classification_cases:
  "classification chunks \<in> {''audio'', ''video'', ''audio + video'', ''unknown''}"
  by (simp add: classification_def split: prod.splits)

subsection \<open>The close reason\<close>

lemma lower_marker: "map lowerChar ''ERROR]'' = ''error]''"
  by code_simp

lemma startsWith_lower:
  assumes "startsWith s ''ERROR]''"
  shows "startsWith (toLowerCase s) ''error''"
proof -
  from assms have "take (length ''ERROR]'') s = ''ERROR]''" by (simp only: startsWith_def)
  then have "s = ''ERROR]'' @ drop (length ''ERROR]'') s"
    by (metis append_take_drop_id)
  then have "toLowerCase s = ''error]'' @ toLowerCase (drop (length ''ERROR]'') s)"
    unfolding toLowerCase_def by (metis map_append lower_marker)
  then show ?thesis by (simp add: startsWith_def)
qed

lemma indexOf_lower_bound: "- 1 \<le> indexOf r p"
  by (induction r) (auto simp: Let_def)

lemma indexOf_found_lower:
  "0 \<le> indexOf r ''ERROR]'' \<Longrightarrow> includesStr (toLowerCase r) ''error''"
proof (induction r)
  case Nil
  then show ?case by simp
next
  case (Cons c cs)
  show ?case
  proof (cases "startsWith (c # cs) ''ERROR]''")
    case True
    then have "startsWith (toLowerCase (c # cs)) ''error''" by (rule startsWith_lower)
    then show ?thesis by (simp add: toLowerCase_def)
  next
    case False
    with Cons.prems have "0 \<le> indexOf cs ''ERROR]''"
      by (simp add: Let_def split: if_splits)
    then have "includesStr (toLowerCase cs) ''error''" by (rule Cons.IH)
    then show ?thesis by (simp add: toLowerCase_def)
  qed
qed

lemma closeReason_eq:
  "closeReason e =
     (if 0 < indexOf (nullish (reason e) []) ''ERROR]''
      then drop (7 + nat (indexOf (nullish (reason e) []) ''ERROR]'')) (nullish (reason e) [])
      else nullish (reason e) [])"
proof (cases "0 < indexOf (nullish (reason e) []) ''ERROR]''")
  case True
  then have "includesStr (toLowerCase (nullish (reason e) [])) ''error''"
    by (intro indexOf_found_lower) simp
  with True show ?thesis
    by (simp add: closeReason_def nullish_def slice_def Let_def nat_add_distrib split: option.splits)
next
  case False
  then show ?thesis
    by (simp add: closeReason_def nullish_def Let_def split: option.splits)
qed

lemma indexOf_zero_iff: "indexOf r p = 0 \<longleftrightarrow> startsWith r p"
  using indexOf_lower_bound [of "tl r" p]
  by (cases r) (auto simp: Let_def startsWith_def)

lemma indexOf_neg_iff: "indexOf r p < 0 \<longleftrightarrow> \<not> includesStr r p"
  by (induction r) (auto simp: Let_def startsWith_def)

lemma closeReason_at_start:
  "closeReason \<lparr>closeType = ''close'', reason = Some ''ERROR] quota exceeded''\<rparr> =
     ''ERROR] quota exceeded''"
  by code_simp

lemma closeReason_after_bracket:
  "closeReason \<lparr>closeType = ''close'', reason = Some ''[ERROR] quota exceeded''\<rparr> =
     ''quota exceeded''"
  by code_simp

subsection \<open>Runs without a close or error callback\<close>

text \<open>
  Every action but the close and the error callback keeps the rule that the client
  holds a handle only while its status is \<open>connected\<close>; the rule holds of a fresh client
  and after every \<open>disconnect()\<close>.
\<close>

lemma step_keeps_handle_rule:
  assumes "session (client w) \<noteq> None \<longrightarrow> status (client w) = Connected"
    and "\<not> isCloseOrError a"
  shows "session (client (fst (step dec w a))) \<noteq> None \<longrightarrow>
         status (client (fst (step dec w a))) = Connected"
proof (cases a)
  case (Call_connect config)
  then show ?thesis using assms by (auto simp: connect_def)
next
  case (Connect_resolves h)
  then show ?thesis using assms by (simp add: connectResolved_def)
next
  case (Connect_rejects e)
  then show ?thesis using assms by (simp add: connectRejected_def onError_def)
next
  case Call_disconnect
  then show ?thesis by (simp add: disconnect_def)
next
  case (Call_send ps tc)
  then show ?thesis using assms by (simp add: send_def)
next
  case (Call_sendRealtimeInput chunks)
  then show ?thesis using assms by (simp add: sendRealtimeInput_def)
next
  case (Call_sendToolResponse tr)
  then show ?thesis using assms by (simp add: sendToolResponse_def)
next
  case Transport_open
  then show ?thesis by (simp add: onOpen_def)
next
  case (Transport_message msg)
  then show ?thesis using assms by simp
next
  case (Transport_error e)
  then show ?thesis using assms by simp
next
  case (Transport_close e)
  then show ?thesis using assms by simp
qed

lemma run_keeps_handle_rule:
  assumes "list_all (\<lambda>a. \<not> isCloseOrError a) as"
    and "session (client w) \<noteq> None \<longrightarrow> status (client w) = Connected"
  shows "session (client (run dec w as)) \<noteq> None \<longrightarrow>
         status (client (run dec w as)) = Connected"
  using assms
proof (induction as arbitrary: w)
  case Nil
  then show ?case by simp
next
  case (Cons a as)
  from Cons.prems have "\<not> isCloseOrError a" and rest: "list_all (\<lambda>a. \<not> isCloseOrError a) as"
    by simp_all
  with Cons.prems(2) have "session (client (fst (step dec w a))) \<noteq> None \<longrightarrow>
      status (client (fst (step dec w a))) = Connected"
    by (intro step_keeps_handle_rule)
  with rest show ?case using Cons.IH by simp
qed

lemma run_append: "run dec w (as @ bs) = run dec (run dec w as) bs"
  by (induction as arbitrary: w) auto

lemma handle_only_while_connected:
  assumes "list_all (\<lambda>a. \<not> isCloseOrError a) bs"
  shows "session (client (run dec initial bs)) \<noteq> None \<longrightarrow>
           status (client (run dec initial bs)) = Connected"
    and "session (client (run dec w (as @ Call_disconnect # bs))) \<noteq> None \<longrightarrow>
           status (client (run dec w (as @ Call_disconnect # bs))) = Connected"
proof -
  show "session (client (run dec initial bs)) \<noteq> None \<longrightarrow>
           status (client (run dec initial bs)) = Connected"
    using assms by (intro run_keeps_handle_rule) (simp_all add: initial_def newClient_def)
  have "session (client (fst (step dec (run dec w as) Call_disconnect))) = None"
    by (simp add: disconnect_def)
  then show "session (client (run dec w (as @ Call_disconnect # bs))) \<noteq> None \<longrightarrow>
           status (client (run dec w (as @ Call_disconnect # bs))) = Connected"
    using assms by (simp add: run_append run_keeps_handle_rule)
qed

section \<open>The claims\<close>

subsection \<open>C1: the session handle and the status\<close>

text \<open>
  Claim C1 says that the session handle is non-null only while the status is
  \<open>connected\<close>, being cleared when the transport close or error callback fires, when
  \<open>disconnect()\<close> is called and when \<open>connect()\<close> fails. \<open>disconnect\<close> (line 143) and the
  failed \<open>connect\<close> (line 128) do clear it, and \<open>handle_only_while_connected\<close> shows the
  claim's rule for every run without a close or error callback, also after any run
  that ends in \<open>disconnect()\<close>. \<open>onClose\<close> and \<open>onError\<close> assign the status only. The
  evaluations below are the client after connect, open, the handle 7 and a transport
  close: it is \<open>disconnected\<close> and holds 7; the same with a transport error in place of
  the close; and, after a further \<open>connect()\<close> and open callback, \<open>sendRealtimeInput\<close>
  passes its guard and sends on the closed session 7.
\<close>

theorem handle_kept_after_close:
  "status (client (run (map of_char) initial
      [Call_connect ''config'', Transport_open, Connect_resolves 7,
       Transport_close \<lparr>closeType = ''close'', reason = None\<rparr>])) = Disconnected \<and>
   session (client (run (map of_char) initial
      [Call_connect ''config'', Transport_open, Connect_resolves 7,
       Transport_close \<lparr>closeType = ''close'', reason = None\<rparr>])) = Some 7 \<and>
   session (client (run (map of_char) initial
      [Call_connect ''config'', Transport_open, Connect_resolves 7,
       Transport_error \<lparr>errorType = ''error'', errorMessage = ''lost''\<rparr>])) = Some 7 \<and>
   snd (step (map of_char)
     (run (map of_char) initial
        [Call_connect ''config'', Transport_open, Connect_resolves 7,
         Transport_close \<lparr>closeType = ''close'', reason = None\<rparr>,
         Call_connect ''config'', Transport_open])
     (Call_sendRealtimeInput [\<lparr>chunkMimeType = ''audio/pcm;rate=16000'', chunkData = ''AAAA''\<rparr>])) =
   [Session_sendRealtimeInput 7 \<lparr>chunkMimeType = ''audio/pcm;rate=16000'', chunkData = ''AAAA''\<rparr>,
    log ''client.realtimeInput'' (Str ''audio'')]"
  by (simp add: initial_def newClient_def connect_def onOpen_def connectResolved_def
      onClose_def onError_def Let_def sendRealtimeInput_def classification_def startsWith_def)

subsection \<open>C2: an interruption is exclusive\<close>

text \<open>
  Claim C2, as amended. For every inbound message whose \<open>serverContent\<close> has
  \<open>interrupted\<close> set, no \<open>inputTranscription\<close>, \<open>outputTranscription\<close>, \<open>audio\<close>, \<open>content\<close>
  or \<open>turncomplete\<close> event is emitted, whatever else the message carries. When none of
  \<open>setupComplete\<close>, \<open>toolCall\<close>, \<open>toolCallCancellation\<close>, which the dispatcher tests first, is
  present in the message, the dispatcher emits exactly one log entry and then one
  \<open>interrupted\<close> event, and nothing else, regardless of the other signals of the
  \<open>serverContent\<close>.
\<close>

theorem interrupted_exclusive:
  assumes "serverContent msg = Some sc" and "interrupted sc = Some True"
  shows "filter isContentSignal (eventsOf (onMessage dec msg)) = [] \<and>
         (setupComplete msg = None \<and> toolCall msg = None \<and> toolCallCancellation msg = None \<longrightarrow>
          onMessage dec msg = [log ''receive.serverContent'' (Str ''interrupted''), Emit Interrupted] \<and>
          length (filter isLog (onMessage dec msg)) = 1 \<and>
          eventsOf (onMessage dec msg) = [Interrupted])"
  using assms by (auto simp: onMessage_def onServerContent_def log_def split: option.splits)

text \<open>An instance with every other signal present as well.\<close>

theorem interrupted_exclusive_witness:
  "onMessage (map of_char)
     (contentMessage
        \<lparr>interrupted = Some True,
         inputTranscription = Some \<lparr>transcriptionText = ''hello'', isFinal = Some True\<rparr>,
         outputTranscription = Some \<lparr>transcriptionText = ''hi'', isFinal = None\<rparr>,
         modelTurn = Some \<lparr>parts = Some [audioPart 1 (Some ''AAAA''), textPart 2 ''hi'']\<rparr>,
         turnComplete = Some True\<rparr>) =
   [log ''receive.serverContent'' (Str ''interrupted''), Emit Interrupted]"
  using interrupted_exclusive [of
     "contentMessage
        \<lparr>interrupted = Some True,
         inputTranscription = Some \<lparr>transcriptionText = ''hello'', isFinal = Some True\<rparr>,
         outputTranscription = Some \<lparr>transcriptionText = ''hi'', isFinal = None\<rparr>,
         modelTurn = Some \<lparr>parts = Some [audioPart 1 (Some ''AAAA''), textPart 2 ''hi'']\<rparr>,
         turnComplete = Some True\<rparr>"
     "\<lparr>interrupted = Some True,
         inputTranscription = Some \<lparr>transcriptionText = ''hello'', isFinal = Some True\<rparr>,
         outputTranscription = Some \<lparr>transcriptionText = ''hi'', isFinal = None\<rparr>,
         modelTurn = Some \<lparr>parts = Some [audioPart 1 (Some ''AAAA''), textPart 2 ''hi'']\<rparr>,
         turnComplete = Some True\<rparr>" "map of_char"]
  by simp

text \<open>
  C2 as stated fails: the branches for \<open>setupComplete\<close>, \<open>toolCall\<close> and
  \<open>toolCallCancellation\<close> return before \<open>serverContent\<close> is looked at. A message that
  carries \<open>setupComplete\<close> next to an interrupted \<open>serverContent\<close> yields the
  \<open>setupcomplete\<close> event only: no log entry and no \<open>interrupted\<close> event.
\<close>

theorem interrupted_after_setupComplete_counterexample:
  "onMessage (map of_char)
     \<lparr>setupComplete = Some (), toolCall = None, toolCallCancellation = None,
      serverContent = Some \<lparr>interrupted = Some True, inputTranscription = None,
                             outputTranscription = None, modelTurn = None,
                             turnComplete = None\<rparr>\<rparr> =
   [Emit Setupcomplete]"
  by (simp add: onMessage_def)

subsection \<open>C3: transcription, then audio, then content\<close>

text \<open>
  Claim C3, as amended. For every inbound message with none of \<open>setupComplete\<close>,
  \<open>toolCall\<close>, \<open>toolCallCancellation\<close> whose \<open>serverContent\<close>, without \<open>interrupted\<close>,
  carries an \<open>inputTranscription\<close> and a \<open>modelTurn\<close> whose parts are one \<open>audio/pcm\<close>
  inline-data part with a present, non-empty payload and one non-audio part, in either
  order, the dispatcher emits, in this order, one \<open>inputTranscription\<close> event, one
  \<open>audio\<close> event with the decoded buffer, and one \<open>content\<close> event whose model-turn
  parts are the non-audio part only.
\<close>

theorem transcription_audio_content_order:
  assumes "setupComplete msg = None" and "toolCall msg = None"
    and "toolCallCancellation msg = None"
    and "serverContent msg = Some sc" and "interrupted sc \<noteq> Some True"
    and "inputTranscription sc = Some t" and "modelTurn sc = Some mt"
    and "parts mt = Some [a, x] \<or> parts mt = Some [x, a]"
    and "isAudioPart a" and "base64Of a = Some d" and "d \<noteq> []" and "\<not> isAudioPart x"
  shows "filter isDemuxEvent (eventsOf (onMessage dec msg)) =
           [InputTranscription (transcriptionText t) (nullish (isFinal t) False),
            Audio (dec d), Content (contentOf [x])]"
proof -
  have "onMessage dec msg = onServerContent dec msg sc"
    using assms(1-4) by (rule onMessage_serverContent)
  moreover have "eventsOf (onModelTurn dec msg mt) = [Audio (dec d), Content (contentOf [x])]"
    using assms(8-12) by (auto simp: eventsOf_onModelTurn nullish_def hasPayload_def)
  ultimately show ?thesis
    using assms(5-7)
    by (simp add: eventsOf_onServerContent split: option.splits)
qed

text \<open>An instance, with an output transcription and a turn completion in the same message.\<close>

theorem transcription_audio_content_order_witness:
  "filter isDemuxEvent (eventsOf (onMessage (map of_char)
     (contentMessage
        \<lparr>interrupted = None,
         inputTranscription = Some \<lparr>transcriptionText = ''hello'', isFinal = None\<rparr>,
         outputTranscription = Some \<lparr>transcriptionText = ''hi'', isFinal = None\<rparr>,
         modelTurn = Some \<lparr>parts = Some [audioPart 1 (Some ''AAAA''), textPart 2 ''hi'']\<rparr>,
         turnComplete = Some True\<rparr>))) =
   [InputTranscription ''hello'' False, Audio (map of_char ''AAAA''),
    Content (contentOf [textPart 2 ''hi''])]"
  using transcription_audio_content_order [of
     "contentMessage
        \<lparr>interrupted = None,
         inputTranscription = Some \<lparr>transcriptionText = ''hello'', isFinal = None\<rparr>,
         outputTranscription = Some \<lparr>transcriptionText = ''hi'', isFinal = None\<rparr>,
         modelTurn = Some \<lparr>parts = Some [audioPart 1 (Some ''AAAA''), textPart 2 ''hi'']\<rparr>,
         turnComplete = Some True\<rparr>"
     "\<lparr>interrupted = None,
         inputTranscription = Some \<lparr>transcriptionText = ''hello'', isFinal = None\<rparr>,
         outputTranscription = Some \<lparr>transcriptionText = ''hi'', isFinal = None\<rparr>,
         modelTurn = Some \<lparr>parts = Some [audioPart 1 (Some ''AAAA''), textPart 2 ''hi'']\<rparr>,
         turnComplete = Some True\<rparr>"
     "\<lparr>transcriptionText = ''hello'', isFinal = None\<rparr>"
     "\<lparr>parts = Some [audioPart 1 (Some ''AAAA''), textPart 2 ''hi'']\<rparr>"
     "audioPart 1 (Some ''AAAA'')" "textPart 2 ''hi''" "''AAAA''" "map of_char"]
  by (simp add: isAudioPart_def base64Of_def startsWith_def nullish_def)

text \<open>
  C3 as stated fails. The audio part of the first message has the empty string as its
  payload: the guard \<open>if (b64)\<close> skips it and no \<open>audio\<close> event is emitted. The second
  message carries a \<open>toolCall\<close> next to the \<open>serverContent\<close>: the dispatcher returns after
  the \<open>toolcall\<close> event.
\<close>

theorem empty_audio_payload_counterexample:
  "eventsOf (onMessage (map of_char)
     (contentMessage
        \<lparr>interrupted = None,
         inputTranscription = Some \<lparr>transcriptionText = ''hello'', isFinal = None\<rparr>,
         outputTranscription = None,
         modelTurn = Some \<lparr>parts = Some [audioPart 1 (Some []), textPart 2 ''hi'']\<rparr>,
         turnComplete = None\<rparr>)) =
   [InputTranscription ''hello'' False, Content (contentOf [textPart 2 ''hi''])] \<and>
   eventsOf (onMessage (map of_char)
     \<lparr>setupComplete = None, toolCall = Some \<lparr>functionCalls = None\<rparr>,
      toolCallCancellation = None,
      serverContent = Some
        \<lparr>interrupted = None,
         inputTranscription = Some \<lparr>transcriptionText = ''hello'', isFinal = None\<rparr>,
         outputTranscription = None,
         modelTurn = Some \<lparr>parts = Some [audioPart 1 (Some ''AAAA''), textPart 2 ''hi'']\<rparr>,
         turnComplete = None\<rparr>\<rparr>) =
   [Toolcall \<lparr>functionCalls = None\<rparr>]"
  by (simp add: onMessage_def eventsOf_onServerContent eventsOf_onModelTurn eventsOf_log
      isAudioPart_def base64Of_def startsWith_def nullish_def hasPayload_def)

subsection \<open>C4: the demultiplexer is a stable partition\<close>

text \<open>
  Claim C4, as amended. For every \<open>modelTurn\<close> whose parts are
  \<open>[audioA, text1, audioB, text2]\<close>, where \<open>audioA\<close> and \<open>audioB\<close> are inline-data parts
  whose mime type starts with \<open>audio/pcm\<close> and whose payload is present and not empty,
  and \<open>text1\<close>, \<open>text2\<close> are non-audio parts, the demultiplexer emits exactly two \<open>audio\<close>
  events, the decoded buffer of \<open>audioA\<close> first and that of \<open>audioB\<close> second, and then
  exactly one \<open>content\<close> event carrying \<open>[text1, text2]\<close>. For every \<open>modelTurn\<close> whose
  parts are all audio parts, no \<open>content\<close> event is emitted.
\<close>

theorem demultiplexer_partition:
  "(parts mt = Some [a, t1, b, t2] \<and>
    isAudioPart a \<and> base64Of a = Some da \<and> da \<noteq> [] \<and>
    isAudioPart b \<and> base64Of b = Some db \<and> db \<noteq> [] \<and>
    \<not> isAudioPart t1 \<and> \<not> isAudioPart t2 \<longrightarrow>
      eventsOf (onModelTurn dec msg mt) =
        [Audio (dec da), Audio (dec db), Content (contentOf [t1, t2])]) \<and>
   (list_all isAudioPart (nullish (parts mt) []) \<longrightarrow>
      filter isContent (eventsOf (onModelTurn dec msg mt)) = [])"
proof -
  have "filter (\<lambda>p. \<not> isAudioPart p) ps = []" if "list_all isAudioPart ps" for ps
    using that by (induction ps) auto
  then have "filter isContent (eventsOf (onModelTurn dec msg mt)) = []"
    if "list_all isAudioPart (nullish (parts mt) [])"
    using that by (simp add: eventsOf_onModelTurn filter_map comp_def)
  moreover have "eventsOf (onModelTurn dec msg mt) =
        [Audio (dec da), Audio (dec db), Content (contentOf [t1, t2])]"
    if "parts mt = Some [a, t1, b, t2]" "isAudioPart a" "base64Of a = Some da" "da \<noteq> []"
      "isAudioPart b" "base64Of b = Some db" "db \<noteq> []" "\<not> isAudioPart t1" "\<not> isAudioPart t2"
    using that by (simp add: eventsOf_onModelTurn nullish_def hasPayload_def)
  ultimately show ?thesis by blast
qed

text \<open>An instance of each half.\<close>

theorem demultiplexer_partition_witness:
  "eventsOf (onModelTurn (map of_char) (contentMessage (contentOf []))
      \<lparr>parts = Some [audioPart 1 (Some ''AAAA''), textPart 2 ''one'',
                      audioPart 3 (Some ''BBBB''), textPart 4 ''two'']\<rparr>) =
     [Audio (map of_char ''AAAA''), Audio (map of_char ''BBBB''),
      Content (contentOf [textPart 2 ''one'', textPart 4 ''two''])] \<and>
   filter isContent (eventsOf (onModelTurn (map of_char) (contentMessage (contentOf []))
      \<lparr>parts = Some [audioPart 1 (Some ''AAAA''), audioPart 3 (Some ''BBBB'')]\<rparr>)) = []"
  using demultiplexer_partition [of
      "\<lparr>parts = Some [audioPart 1 (Some ''AAAA''), textPart 2 ''one'',
                      audioPart 3 (Some ''BBBB''), textPart 4 ''two'']\<rparr>"
      "audioPart 1 (Some ''AAAA'')" "textPart 2 ''one''"
      "audioPart 3 (Some ''BBBB'')" "textPart 4 ''two''" "''AAAA''" "''BBBB''"
      "map of_char" "contentMessage (contentOf [])"]
    demultiplexer_partition [of
      "\<lparr>parts = Some [audioPart 1 (Some ''AAAA''), audioPart 3 (Some ''BBBB'')]\<rparr>"
      _ _ _ _ _ _ "map of_char" "contentMessage (contentOf [])"]
  by (simp add: isAudioPart_def base64Of_def startsWith_def nullish_def)

text \<open>
  C4 as stated fails: \<open>audioA\<close> here is an \<open>audio/pcm\<close> inline-data part with the empty
  string as payload, and one \<open>audio\<close> event is emitted, not two.
\<close>

theorem one_audio_event_counterexample:
  "audioBuffers (onModelTurn (map of_char) (contentMessage (contentOf []))
      \<lparr>parts = Some [audioPart 1 (Some []), textPart 2 ''one'',
                      audioPart 3 (Some ''BBBB''), textPart 4 ''two'']\<rparr>) =
     [map of_char ''BBBB'']"
  by (simp add: audioBuffers_onModelTurn isAudioPart_def base64Of_def startsWith_def
      nullish_def hasPayload_def)

subsection \<open>C5: outbound operations while not connected\<close>

text \<open>
  Claim C5. For every state whose status is not \<open>connected\<close>, each of \<open>send\<close>,
  \<open>sendRealtimeInput\<close> and \<open>sendToolResponse\<close> leaves the client as it was and has exactly
  one effect, the \<open>error\<close> event: no call on the transport, no log entry, no exception.
\<close>

theorem outbound_not_connected:
  assumes "status c \<noteq> Connected"
  shows "send c ps tc =
           (c, [Emit (Error \<lparr>errorType = ''Client is not connected'', errorMessage = []\<rparr>)]) \<and>
         sendRealtimeInput c chunks =
           (c, [Emit (Error \<lparr>errorType = ''Client is not connected'', errorMessage = []\<rparr>)]) \<and>
         sendToolResponse c tr =
           (c, [Emit (Error \<lparr>errorType = ''Client is not connected'', errorMessage = []\<rparr>)])"
  using assms
  by (simp add: send_def sendRealtimeInput_def sendToolResponse_def notConnected_def)

text \<open>An instance: a disconnected client that still holds a handle.\<close>

theorem outbound_not_connected_witness:
  "send \<lparr>model = ''m'', session = Some 7, status = Disconnected\<rparr> (ManyParts [textPart 1 ''hi'']) True =
     (\<lparr>model = ''m'', session = Some 7, status = Disconnected\<rparr>,
      [Emit (Error \<lparr>errorType = ''Client is not connected'', errorMessage = []\<rparr>)]) \<and>
   sendRealtimeInput \<lparr>model = ''m'', session = Some 7, status = Disconnected\<rparr>
      [\<lparr>chunkMimeType = ''audio/pcm;rate=16000'', chunkData = ''AAAA''\<rparr>] =
     (\<lparr>model = ''m'', session = Some 7, status = Disconnected\<rparr>,
      [Emit (Error \<lparr>errorType = ''Client is not connected'', errorMessage = []\<rparr>)]) \<and>
   sendToolResponse \<lparr>model = ''m'', session = Some 7, status = Disconnected\<rparr>
      \<lparr>functionResponses = Some [''ok'']\<rparr> =
     (\<lparr>model = ''m'', session = Some 7, status = Disconnected\<rparr>,
      [Emit (Error \<lparr>errorType = ''Client is not connected'', errorMessage = []\<rparr>)])"
  using outbound_not_connected [of "\<lparr>model = ''m'', session = Some 7, status = Disconnected\<rparr>"
      "ManyParts [textPart 1 ''hi'']" True
      "[\<lparr>chunkMimeType = ''audio/pcm;rate=16000'', chunkData = ''AAAA''\<rparr>]"
      "\<lparr>functionResponses = Some [''ok'']\<rparr>"]
  by simp

subsection \<open>C6: log entries\<close>




subsection \<open>C7: realtime input\<close>

text \<open>
  Claim C7, as amended. For every state with status \<open>connected\<close> and a session handle
  \<open>h\<close>, and every chunk list, \<open>sendRealtimeInput\<close> issues exactly one transport send per chunk, in input
  order, then logs exactly one classification, which is one of \<open>audio\<close>, \<open>video\<close>,
  \<open>audio + video\<close>, \<open>unknown\<close>. The empty list sends nothing and logs \<open>unknown\<close>; a list of
  one audio-mime and one image-mime chunk, in either order, issues exactly two transport
  sends and logs \<open>audio + video\<close>.
\<close>

theorem sendRealtimeInput_connected:
  assumes "status c = Connected" and "session c = Some h"
  shows "sendRealtimeInput c chunks =
           (c, map (Session_sendRealtimeInput h) chunks @
               [log ''client.realtimeInput'' (Str (classification chunks))]) \<and>
         classification chunks \<in> {''audio'', ''video'', ''audio + video'', ''unknown''} \<and>
         sendRealtimeInput c [] = (c, [log ''client.realtimeInput'' (Str ''unknown'')]) \<and>
         (includesStr (chunkMimeType a) ''audio'' \<and> includesStr (chunkMimeType v) ''image'' \<longrightarrow>
            sendRealtimeInput c [a, v] =
              (c, [Session_sendRealtimeInput h a, Session_sendRealtimeInput h v,
                   log ''client.realtimeInput'' (Str ''audio + video'')]) \<and>
            sendRealtimeInput c [v, a] =
              (c, [Session_sendRealtimeInput h v, Session_sendRealtimeInput h a,
                   log ''client.realtimeInput'' (Str ''audio + video'')]))"
  using assms classification_cases [of chunks]
  by (auto simp: sendRealtimeInput_def classification_def)

text \<open>An instance: one audio chunk and one image chunk, and the empty list.\<close>

theorem sendRealtimeInput_connected_witness:
  "sendRealtimeInput \<lparr>model = ''m'', session = Some 7, status = Connected\<rparr>
      [\<lparr>chunkMimeType = ''audio/pcm;rate=16000'', chunkData = ''AAAA''\<rparr>,
       \<lparr>chunkMimeType = ''image/jpeg'', chunkData = ''BBBB''\<rparr>] =
     (\<lparr>model = ''m'', session = Some 7, status = Connected\<rparr>,
      [Session_sendRealtimeInput 7 \<lparr>chunkMimeType = ''audio/pcm;rate=16000'', chunkData = ''AAAA''\<rparr>,
       Session_sendRealtimeInput 7 \<lparr>chunkMimeType = ''image/jpeg'', chunkData = ''BBBB''\<rparr>,
       log ''client.realtimeInput'' (Str ''audio + video'')]) \<and>
   sendRealtimeInput \<lparr>model = ''m'', session = Some 7, status = Connected\<rparr> [] =
     (\<lparr>model = ''m'', session = Some 7, status = Connected\<rparr>,
      [log ''client.realtimeInput'' (Str ''unknown'')])"
proof -
  have connected: "status \<lparr>model = ''m'', session = Some 7, status = Connected\<rparr> = Connected"
    "session \<lparr>model = ''m'', session = Some 7, status = Connected\<rparr> = Some 7"
    by simp_all
  have mimes:
    "includesStr (chunkMimeType \<lparr>chunkMimeType = ''audio/pcm;rate=16000'', chunkData = ''AAAA''\<rparr>) ''audio'' \<and>
     includesStr (chunkMimeType \<lparr>chunkMimeType = ''image/jpeg'', chunkData = ''BBBB''\<rparr>) ''image''"
    by (simp add: startsWith_def)
  from sendRealtimeInput_connected [OF connected, of "[]"
      "\<lparr>chunkMimeType = ''audio/pcm;rate=16000'', chunkData = ''AAAA''\<rparr>"
      "\<lparr>chunkMimeType = ''image/jpeg'', chunkData = ''BBBB''\<rparr>"] mimes
  show ?thesis by blast
qed

text \<open>
  C7 as stated fails: the guard of the operation wants a session handle as well as the
  status. When the open callback fires before \<open>connect\<close> has stored the handle, the
  status is \<open>connected\<close> and \<open>sendRealtimeInput\<close> publishes the \<open>error\<close> event and sends
  nothing.
\<close>

theorem connected_without_handle_counterexample:
  "status (client (run (map of_char) initial [Call_connect ''config'', Transport_open])) =
     Connected \<and>
   snd (sendRealtimeInput
          (client (run (map of_char) initial [Call_connect ''config'', Transport_open]))
          [\<lparr>chunkMimeType = ''audio/pcm;rate=16000'', chunkData = ''AAAA''\<rparr>]) =
     [Emit (Error \<lparr>errorType = ''Client is not connected'', errorMessage = []\<rparr>)]"
  by (simp add: initial_def newClient_def connect_def onOpen_def sendRealtimeInput_def
      notConnected_def)

subsection \<open>C8: the close reason\<close>

text \<open>
  Claim C8 says that a close reason which contains the marker \<open>ERROR]\<close> is logged as the
  text after the marker, one delimiter skipped. \<open>closeReason_eq\<close> shows what \<open>onClose\<close>
  computes: the extraction happens when the first occurrence of the marker is at an
  index greater than zero, and the raw reason is used otherwise (\<open>indexOf_neg_iff\<close>:
  the marker is absent; \<open>indexOf_zero_iff\<close>: the reason begins with it). So a reason
  without the marker is logged verbatim, as C8 says, and a reason that begins with the
  marker is logged verbatim too, against C8. The two evaluations below are \<open>onClose\<close> on such a
  reason and on the same reason behind a bracket.
\<close>

theorem close_reason_marker_at_start:
  "snd (onClose c \<lparr>closeType = ''close'', reason = Some ''ERROR] quota exceeded''\<rparr>) =
     [log ''server.close'' (Str ''disconnected with reason: ERROR] quota exceeded''),
      Emit (Close \<lparr>closeType = ''close'', reason = Some ''ERROR] quota exceeded''\<rparr>)] \<and>
   snd (onClose c \<lparr>closeType = ''close'', reason = Some ''[ERROR] quota exceeded''\<rparr>) =
     [log ''server.close'' (Str ''disconnected with reason: quota exceeded''),
      Emit (Close \<lparr>closeType = ''close'', reason = Some ''[ERROR] quota exceeded''\<rparr>)]"
  by (simp add: onClose_def Let_def closeReason_at_start closeReason_after_bracket)

subsection \<open>C9: a transcription without \<open>isFinal\<close>\<close>

text \<open>
  Claim C9. For every inbound message whose \<open>inputTranscription\<close> record has no \<open>isFinal\<close>
  field, every \<open>inputTranscription\<close> event the dispatcher emits carries the record's text
  and \<open>isFinal = false\<close>; when the message is a \<open>serverContent\<close> message without
  \<open>interrupted\<close>, exactly one such event is emitted. The same holds of
  \<open>outputTranscription\<close>.
\<close>

theorem isFinal_defaults_to_false:
  "(serverContent msg = Some sc \<and> inputTranscription sc = Some t \<and> isFinal t = None \<longrightarrow>
      list_all (\<lambda>e. e = InputTranscription (transcriptionText t) False)
        (filter isInputTranscription (eventsOf (onMessage dec msg))) \<and>
      (setupComplete msg = None \<and> toolCall msg = None \<and> toolCallCancellation msg = None \<and>
       interrupted sc \<noteq> Some True \<longrightarrow>
         filter isInputTranscription (eventsOf (onMessage dec msg)) =
           [InputTranscription (transcriptionText t) False])) \<and>
   (serverContent msg = Some sc \<and> outputTranscription sc = Some t \<and> isFinal t = None \<longrightarrow>
      list_all (\<lambda>e. e = OutputTranscription (transcriptionText t) False)
        (filter isOutputTranscription (eventsOf (onMessage dec msg))) \<and>
      (setupComplete msg = None \<and> toolCall msg = None \<and> toolCallCancellation msg = None \<and>
       interrupted sc \<noteq> Some True \<longrightarrow>
         filter isOutputTranscription (eventsOf (onMessage dec msg)) =
           [OutputTranscription (transcriptionText t) False]))"
proof -
  have mt_in: "filter isInputTranscription (eventsOf (onModelTurn dec msg m)) = []" for m
    by (simp add: eventsOf_onModelTurn filter_map comp_def)
  have mt_out: "filter isOutputTranscription (eventsOf (onModelTurn dec msg m)) = []" for m
    by (simp add: eventsOf_onModelTurn filter_map comp_def)
  show ?thesis
    by (auto simp: onMessage_def eventsOf_onServerContent eventsOf_log mt_in mt_out nullish_def
        split: option.splits)
qed

text \<open>An instance for each of the two transcriptions.\<close>

theorem isFinal_defaults_to_false_witness:
  "filter isInputTranscription (eventsOf (onMessage (map of_char)
     (contentMessage
        \<lparr>interrupted = None,
         inputTranscription = Some \<lparr>transcriptionText = ''hello'', isFinal = None\<rparr>,
         outputTranscription = None, modelTurn = None, turnComplete = None\<rparr>))) =
   [InputTranscription ''hello'' False] \<and>
   filter isOutputTranscription (eventsOf (onMessage (map of_char)
     (contentMessage
        \<lparr>interrupted = None, inputTranscription = None,
         outputTranscription = Some \<lparr>transcriptionText = ''hello'', isFinal = None\<rparr>,
         modelTurn = None, turnComplete = None\<rparr>))) =
   [OutputTranscription ''hello'' False]"
  using isFinal_defaults_to_false [of
     "contentMessage
        \<lparr>interrupted = None,
         inputTranscription = Some \<lparr>transcriptionText = ''hello'', isFinal = None\<rparr>,
         outputTranscription = None, modelTurn = None, turnComplete = None\<rparr>"
     "\<lparr>interrupted = None,
         inputTranscription = Some \<lparr>transcriptionText = ''hello'', isFinal = None\<rparr>,
         outputTranscription = None, modelTurn = None, turnComplete = None\<rparr>"
     "\<lparr>transcriptionText = ''hello'', isFinal = None\<rparr>" "map of_char"]
    isFinal_defaults_to_false [of
     "contentMessage
        \<lparr>interrupted = None, inputTranscription = None,
         outputTranscription = Some \<lparr>transcriptionText = ''hello'', isFinal = None\<rparr>,
         modelTurn = None, turnComplete = None\<rparr>"
     "\<lparr>interrupted = None, inputTranscription = None,
         outputTranscription = Some \<lparr>transcriptionText = ''hello'', isFinal = None\<rparr>,
         modelTurn = None, turnComplete = None\<rparr>"
     "\<lparr>transcriptionText = ''hello'', isFinal = None\<rparr>" "map of_char"]
  by simp

subsection \<open>C10: audio parts without a payload\<close>

text \<open>
  Claim C10. For every \<open>modelTurn\<close>, the \<open>audio\<close> events are the decoded payloads of the
  audio-mime parts whose payload is present and not empty, in order, so their number
  is the number of such parts: an audio-mime part whose \<open>data\<close> is absent or the empty
  string yields no event. The decoder is not applied to such a payload: two decoders
  that agree on every non-empty string give the same effects. The dispatcher has no
  failing branch for a missing payload; for a \<open>serverContent\<close> message without
  \<open>interrupted\<close>, the \<open>audio\<close> events of the message are those of its \<open>modelTurn\<close>.
\<close>

theorem empty_payload_skipped:
  "audioBuffers (onModelTurn dec msg mt) =
     map (\<lambda>p. dec (nullish (base64Of p) []))
       (filter (\<lambda>p. isAudioPart p \<and> hasPayload p) (nullish (parts mt) [])) \<and>
   length (audioBuffers (onModelTurn dec msg mt)) =
     length (filter (\<lambda>p. isAudioPart p \<and> hasPayload p) (nullish (parts mt) [])) \<and>
   ((\<forall>s. s \<noteq> [] \<longrightarrow> dec s = dec' s) \<longrightarrow>
      onModelTurn dec msg mt = onModelTurn dec' msg mt) \<and>
   (setupComplete msg = None \<and> toolCall msg = None \<and> toolCallCancellation msg = None \<and>
    serverContent msg = Some sc \<and> interrupted sc \<noteq> Some True \<and> modelTurn sc = Some mt \<longrightarrow>
      audioBuffers (onMessage dec msg) = audioBuffers (onModelTurn dec msg mt))"
proof -
  have "audioBuffers (onMessage dec msg) = audioBuffers (onModelTurn dec msg mt)"
    if "setupComplete msg = None" "toolCall msg = None" "toolCallCancellation msg = None"
      "serverContent msg = Some sc" "interrupted sc \<noteq> Some True" "modelTurn sc = Some mt"
    using that
    by (simp add: onMessage_def onServerContent_def audioBuffers_append audioBuffers_log
        split: option.splits)
  moreover have "onModelTurn dec msg mt = onModelTurn dec' msg mt"
    if "\<forall>s. s \<noteq> [] \<longrightarrow> dec s = dec' s"
    using that by (intro onModelTurn_cong) simp
  ultimately show ?thesis
    by (simp add: audioBuffers_onModelTurn)
qed

text \<open>An instance: of three audio parts, only the one with a payload yields an event.\<close>

theorem empty_payload_skipped_witness:
  "audioBuffers (onMessage (map of_char)
     (contentMessage
        \<lparr>interrupted = None, inputTranscription = None, outputTranscription = None,
         modelTurn = Some \<lparr>parts = Some [audioPart 1 (Some []), audioPart 2 None,
                                          audioPart 3 (Some ''AAAA''), textPart 4 ''hi'']\<rparr>,
         turnComplete = None\<rparr>)) =
   [map of_char ''AAAA'']"
  using empty_payload_skipped [of "map of_char"
     "contentMessage
        \<lparr>interrupted = None, inputTranscription = None, outputTranscription = None,
         modelTurn = Some \<lparr>parts = Some [audioPart 1 (Some []), audioPart 2 None,
                                          audioPart 3 (Some ''AAAA''), textPart 4 ''hi'']\<rparr>,
         turnComplete = None\<rparr>"
     "\<lparr>parts = Some [audioPart 1 (Some []), audioPart 2 None,
                     audioPart 3 (Some ''AAAA''), textPart 4 ''hi'']\<rparr>"
     "map of_char"
     "\<lparr>interrupted = None, inputTranscription = None, outputTranscription = None,
         modelTurn = Some \<lparr>parts = Some [audioPart 1 (Some []), audioPart 2 None,
                                          audioPart 3 (Some ''AAAA''), textPart 4 ''hi'']\<rparr>,
         turnComplete = None\<rparr>"]
  by (simp add: isAudioPart_def base64Of_def startsWith_def nullish_def hasPayload_def)

end
